theory Spec2Isabelle
  imports Complex_Main "HOL-Library.Char_ord" "HOL-Library.List_Lexorder"
begin

section \<open>Location tracking: geometry, features, fallback scorer\<close>

text \<open>
  The embedding follows \<^verbatim>\<open>aiml/location_tracker\<close>. Python floats are read as real
  numbers: comparisons and the arithmetic of the source are kept operation by operation,
  rounding is not modelled. Exceptions are values of \<open>error\<close>; a function that can raise
  returns \<open>error + 'a\<close>.
\<close>

datatype error = TypeError | IndexError | ValueError | ConnectionError | DoesNotExist

subsection \<open>feature\_engineering.py: geometry\<close>

definition radians :: "real \<Rightarrow> real" where
  "radians d = d * pi / 180"

definition degrees :: "real \<Rightarrow> real" where
  "degrees r = r * 180 / pi"

text \<open>\<^verbatim>\<open>math.atan2(y, x)\<close> on reals, by quadrant.\<close>

definition atan2 :: "real \<Rightarrow> real \<Rightarrow> real" where
  "atan2 y x =
     (if 0 < x then arctan (y / x)
      else if x < 0 \<and> 0 \<le> y then arctan (y / x) + pi
      else if x < 0 then arctan (y / x) - pi
      else if 0 < y then pi / 2
      else if y < 0 then - (pi / 2)
      else 0)"

text \<open>Python's \<^verbatim>\<open>a % m\<close> on floats with a positive modulus: the result lies in \<open>[0, m)\<close>.\<close>

definition fmod :: "real \<Rightarrow> real \<Rightarrow> real" where
  "fmod a m = a - m * of_int \<lfloor>a / m\<rfloor>"

definition haversine_distance :: "real \<Rightarrow> real \<Rightarrow> real \<Rightarrow> real \<Rightarrow> real" where
  "haversine_distance lat1d lon1d lat2d lon2d =
     (let lat1 = radians lat1d; lon1 = radians lon1d;
          lat2 = radians lat2d; lon2 = radians lon2d;
          dlat = lat2 - lat1;
          dlon = lon2 - lon1;
          a = (sin (dlat / 2))\<^sup>2 + cos lat1 * cos lat2 * (sin (dlon / 2))\<^sup>2;
          c = 2 * arcsin (sqrt a);
          r = 6371000
      in c * r)"

definition calculate_bearing :: "real \<Rightarrow> real \<Rightarrow> real \<Rightarrow> real \<Rightarrow> real" where
  "calculate_bearing lat1d lon1d lat2d lon2d =
     (let lat1 = radians lat1d; lon1 = radians lon1d;
          lat2 = radians lat2d; lon2 = radians lon2d;
          dlon = lon2 - lon1;
          y = sin dlon * cos lat2;
          x = cos lat1 * sin lat2 - sin lat1 * cos lat2 * cos dlon;
          bearing = degrees (atan2 y x)
      in fmod (bearing + 360) 360)"

definition bearing_difference :: "real \<Rightarrow> real \<Rightarrow> real" where
  "bearing_difference bearing1 bearing2 =
     (let diff = \<bar>bearing2 - bearing1\<bar>
      in if diff > 180 then 360 - diff else diff)"

subsection \<open>feature\_engineering.py: the fallback scorer\<close>

text \<open>
  \<^verbatim>\<open>features\<close> is a numpy array of shape \<open>(1, n)\<close> or \<^verbatim>\<open>None\<close>; its single row is a
  list of reals, and \<^verbatim>\<open>features[0, k]\<close> raises IndexError when \<open>k\<close> is out of range.
  The parameter \<^verbatim>\<open>threshold\<close> of the source is never read and is left out.
\<close>

definition item :: "real list \<Rightarrow> nat \<Rightarrow> error + real" where
  "item row k = (if k < length row then Inr (row ! k) else Inl IndexError)"

definition anomaly_indicators :: "real \<Rightarrow> real \<Rightarrow> real \<Rightarrow> real \<Rightarrow> nat" where
  "anomaly_indicators speed_mean speed_max bearing_change_max acceleration_max =
     (if speed_max > 50 then 1 else 0)
   + (if bearing_change_max > 120 then 1 else 0)
   + (if \<bar>acceleration_max\<bar> > 10 then 1 else 0)
   + (if speed_mean < 1 \<and> bearing_change_max > 90 then 1 else 0)"

definition is_anomalous_behavior :: "real list option \<Rightarrow> error + (bool \<times> real)" where
  "is_anomalous_behavior features =
     (case features of
        None \<Rightarrow> Inr (False, 0)
      | Some row \<Rightarrow>
          (case item row 0 of Inl e \<Rightarrow> Inl e | Inr speed_mean \<Rightarrow>
          (case item row 2 of Inl e \<Rightarrow> Inl e | Inr speed_max \<Rightarrow>
          (case item row 6 of Inl e \<Rightarrow> Inl e | Inr bearing_change_max \<Rightarrow>
          (case item row 9 of Inl e \<Rightarrow> Inl e | Inr acceleration_max \<Rightarrow>
             (let n = anomaly_indicators speed_mean speed_max bearing_change_max acceleration_max;
                  is_anomaly = (n \<ge> 2);
                  confidence = real n / 4
              in Inr (is_anomaly, confidence)))))))"

subsection \<open>feature\_engineering.py: feature extraction\<close>

text \<open>
  A window entry is the dictionary the views store: the keys \<^verbatim>\<open>latitude\<close>,
  \<^verbatim>\<open>longitude\<close> and \<^verbatim>\<open>timestamp\<close> are present, the coordinates are decimal strings
  that \<^verbatim>\<open>float()\<close> reads back (held here as the real they denote), the timestamp is
  the string itself: the window is sorted by it as a string, and it is parsed only
  inside the loop.
\<close>

record sample =
  latitude :: real
  longitude :: real
  timestamp :: string

text \<open>
  A parsed \<^verbatim>\<open>datetime\<close>: whether it carries a UTC offset, and its instant in
  microseconds. Subtracting an offset-aware from an offset-naive datetime raises
  TypeError, which the loop does not catch.
\<close>

record datetime =
  aware :: bool
  micros :: int

text \<open>
  \<^verbatim>\<open>datetime.fromisoformat(s.replace('Z', '+00:00'))\<close> is library code and is a
  parameter of the model: \<open>None\<close> stands for its ValueError.
\<close>

type_synonym iso_parser = "string \<Rightarrow> datetime option"

definition total_seconds :: "datetime \<Rightarrow> datetime \<Rightarrow> error + real" where
  "total_seconds curr_time prev_time =
     (if aware curr_time \<noteq> aware prev_time then Inl TypeError
      else Inr (real_of_int (micros curr_time - micros prev_time) / 1000000))"

text \<open>
  One iteration of the point-to-point loop: \<open>Inr None\<close> is \<^verbatim>\<open>continue\<close>, and
  \<open>Inr (Some (speed, bearing))\<close> the values appended to \<^verbatim>\<open>speeds\<close> and
  \<^verbatim>\<open>bearings\<close>.
\<close>

definition pair_sample :: "iso_parser \<Rightarrow> sample \<Rightarrow> sample \<Rightarrow> error + (real \<times> real) option" where
  "pair_sample fromisoformat prev_point curr_point =
     (case fromisoformat (timestamp prev_point) of
        None \<Rightarrow> Inr None
      | Some prev_time \<Rightarrow>
     (case fromisoformat (timestamp curr_point) of
        None \<Rightarrow> Inr None
      | Some curr_time \<Rightarrow>
     (case total_seconds curr_time prev_time of
        Inl e \<Rightarrow> Inl e
      | Inr time_diff \<Rightarrow>
          if time_diff \<le> 0 then Inr None
          else
            (let distance = haversine_distance (latitude prev_point) (longitude prev_point)
                              (latitude curr_point) (longitude curr_point);
                 speed = (if time_diff > 0 then distance / time_diff else 0);
                 bearing = calculate_bearing (latitude prev_point) (longitude prev_point)
                              (latitude curr_point) (longitude curr_point)
             in Inr (Some (speed, bearing))))))"

fun point_to_point :: "iso_parser \<Rightarrow> sample list \<Rightarrow> error + (real \<times> real) list" where
  "point_to_point fromisoformat (prev_point # curr_point # rest) =
     (case pair_sample fromisoformat prev_point curr_point of
        Inl e \<Rightarrow> Inl e
      | Inr r \<Rightarrow>
          (case point_to_point fromisoformat (curr_point # rest) of
             Inl e \<Rightarrow> Inl e
           | Inr sbs \<Rightarrow> Inr (case r of None \<Rightarrow> sbs | Some sb \<Rightarrow> sb # sbs)))"
| "point_to_point fromisoformat _ = Inr []"

fun bearing_changes_of :: "real list \<Rightarrow> real list" where
  "bearing_changes_of (b1 # b2 # rest) = bearing_difference b1 b2 # bearing_changes_of (b2 # rest)"
| "bearing_changes_of _ = []"

fun accelerations_of :: "real list \<Rightarrow> real list" where
  "accelerations_of (s1 # s2 # rest) =
     (let time_diff = 10 in (s2 - s1) / time_diff) # accelerations_of (s2 # rest)"
| "accelerations_of _ = []"

definition np_mean :: "real list \<Rightarrow> real" where
  "np_mean xs = sum_list xs / real (length xs)"

definition np_std :: "real list \<Rightarrow> real" where
  "np_std xs = sqrt (np_mean (map (\<lambda>x. (x - np_mean xs)\<^sup>2) xs))"

definition np_max :: "real list \<Rightarrow> real" where
  "np_max xs = Max (set xs)"

definition np_min :: "real list \<Rightarrow> real" where
  "np_min xs = Min (set xs)"

definition feature_row :: "nat \<Rightarrow> real list \<Rightarrow> real list \<Rightarrow> real list \<Rightarrow> real list" where
  "feature_row n_points speeds bearing_changes accelerations =
     [ if speeds \<noteq> [] then np_mean speeds else 0,
       if length speeds > 1 then np_std speeds else 0,
       if speeds \<noteq> [] then np_max speeds else 0,
       if speeds \<noteq> [] then np_min speeds else 0,
       if bearing_changes \<noteq> [] then np_mean bearing_changes else 0,
       if length bearing_changes > 1 then np_std bearing_changes else 0,
       if bearing_changes \<noteq> [] then np_max bearing_changes else 0,
       if accelerations \<noteq> [] then np_mean accelerations else 0,
       if length accelerations > 1 then np_std accelerations else 0,
       if accelerations \<noteq> [] then np_max accelerations else 0,
       if accelerations \<noteq> [] then np_min accelerations else 0,
       real n_points,
       if speeds \<noteq> [] then last speeds else 0,
       if accelerations \<noteq> [] then sum_list (map abs accelerations) else 0 ]"

definition extract_features :: "iso_parser \<Rightarrow> sample list \<Rightarrow> error + real list option" where
  "extract_features fromisoformat location_window =
     (if length location_window < 2 then Inr None
      else
        (let sorted_window = sort_key timestamp location_window
         in case point_to_point fromisoformat sorted_window of
              Inl e \<Rightarrow> Inl e
            | Inr sbs \<Rightarrow>
                (let speeds = map fst sbs; bearings = map snd sbs
                 in if speeds = [] then Inr None
                    else
                      (let bearing_changes = bearing_changes_of bearings;
                           accelerations = accelerations_of speeds
                       in Inr (Some (feature_row (length sorted_window) speeds
                                       bearing_changes accelerations))))))"

text \<open>
  The timestamps used for evaluation, as \<^verbatim>\<open>fromisoformat\<close> reads them: naive
  datetimes 10 and 40 seconds after the first (instants counted from the first). Every
  other string, such as the timestamp of \<open>point_x\<close>, is left unparseable in this table.
\<close>

definition iso_table :: iso_parser where
  "iso_table s =
     (if s = ''2024-01-01T00:00:00'' then Some \<lparr>aware = False, micros = 0\<rparr>
      else if s = ''2024-01-01T00:00:10'' then Some \<lparr>aware = False, micros = 10000000\<rparr>
      else if s = ''2024-01-01T00:00:40'' then Some \<lparr>aware = False, micros = 40000000\<rparr>
      else None)"

definition point_a :: sample where
  "point_a = \<lparr>latitude = 19, longitude = 72, timestamp = ''2024-01-01T00:00:00''\<rparr>"

definition point_b :: sample where
  "point_b = \<lparr>latitude = 19.0001, longitude = 72, timestamp = ''2024-01-01T00:00:10''\<rparr>"

definition point_c :: sample where
  "point_c = \<lparr>latitude = 19.0001, longitude = 72.0001, timestamp = ''2024-01-01T00:00:40''\<rparr>"


section \<open>Session store, anomaly records, safety score\<close>

subsection \<open>redis\_utils.py: the sliding window\<close>

text \<open>
  The keys \<^verbatim>\<open>journey:<id>\<close> and \<^verbatim>\<open>location:<id>\<close> are two families of one Redis
  keyspace; they are held as two maps indexed by the user id. A missing list key reads
  as the empty list. The entries are JSON texts of the dictionaries, decoded on the way
  out: the round trip is the identity on them, and the list holds the samples.
  \<open>up\<close> says whether the server answers during the call; when it does not, the client
  raises and nothing is stored.
\<close>

record redis_db =
  journey :: "string \<Rightarrow> string option"
  location :: "string \<Rightarrow> sample list"

definition redis_empty :: redis_db where
  "redis_empty = \<lparr>journey = (\<lambda>k. None), location = (\<lambda>k. [])\<rparr>"

text \<open>
  The index arithmetic shared by LRANGE and LTRIM: a negative index counts from the end,
  a start before the first element is the first element, an end past the last is the
  last, and an empty or inverted range selects nothing.
\<close>

definition redis_range :: "'a list \<Rightarrow> int \<Rightarrow> int \<Rightarrow> 'a list" where
  "redis_range xs start stop =
     (let llen = int (length xs);
          start1 = (if start < 0 then llen + start else start);
          stop1 = (if stop < 0 then llen + stop else stop);
          start2 = (if start1 < 0 then 0 else start1)
      in if start2 > stop1 \<or> start2 \<ge> llen then []
         else (let stop2 = (if stop1 \<ge> llen then llen - 1 else stop1)
               in take (nat (stop2 - start2 + 1)) (drop (nat start2) xs)))"

definition rpush :: "'a list \<Rightarrow> 'a \<Rightarrow> 'a list" where
  "rpush xs x = xs @ [x]"

definition ltrim :: "'a list \<Rightarrow> int \<Rightarrow> int \<Rightarrow> 'a list" where
  "ltrim xs start stop = redis_range xs start stop"

definition lrange :: "'a list \<Rightarrow> int \<Rightarrow> int \<Rightarrow> 'a list" where
  "lrange xs start stop = redis_range xs start stop"

definition start_journey :: "bool \<Rightarrow> string \<Rightarrow> redis_db \<Rightarrow> error + (bool \<times> redis_db)" where
  "start_journey up user_id r =
     (if \<not> up then Inl ConnectionError
      else Inr (True, r\<lparr>journey := (journey r)(user_id \<mapsto> ''{\"status\": \"active\", \"start_time\": \"null\"}''),
                        location := (location r)(user_id := [])\<rparr>))"

definition end_journey :: "bool \<Rightarrow> string \<Rightarrow> redis_db \<Rightarrow> error + (bool \<times> redis_db)" where
  "end_journey up user_id r =
     (if \<not> up then Inl ConnectionError
      else Inr (True, r\<lparr>journey := (journey r)(user_id := None),
                        location := (location r)(user_id := [])\<rparr>))"

definition add_location_point ::
  "bool \<Rightarrow> string \<Rightarrow> sample \<Rightarrow> redis_db \<Rightarrow> error + (sample list \<times> redis_db)" where
  "add_location_point up user_id location_data r =
     (if \<not> up then Inl ConnectionError
      else
        (let pushed = rpush (location r user_id) location_data;
             trimmed = ltrim pushed (- 30) (- 1);
             r' = r\<lparr>location := (location r)(user_id := trimmed)\<rparr>;
             window_data = lrange (location r' user_id) 0 (- 1)
         in Inr (window_data, r')))"

definition get_location_window :: "bool \<Rightarrow> string \<Rightarrow> redis_db \<Rightarrow> error + sample list" where
  "get_location_window up user_id r =
     (if \<not> up then Inl ConnectionError else Inr (lrange (location r user_id) 0 (- 1)))"

definition is_journey_active :: "bool \<Rightarrow> string \<Rightarrow> redis_db \<Rightarrow> error + bool" where
  "is_journey_active up user_id r =
     (if \<not> up then Inl ConnectionError else Inr (journey r user_id \<noteq> None))"

text \<open>
  A run of calls to \<^verbatim>\<open>add_location_point\<close>, each with its user, its sample and whether
  Redis answers; a call that raises leaves the store as it was.
\<close>

fun add_location_points :: "(bool \<times> string \<times> sample) list \<Rightarrow> redis_db \<Rightarrow> redis_db" where
  "add_location_points [] r = r"
| "add_location_points ((up, user_id, location_data) # calls) r =
     (case add_location_point up user_id location_data r of
        Inl e \<Rightarrow> add_location_points calls r
      | Inr (window, r') \<Rightarrow> add_location_points calls r')"

text \<open>The samples that the answered calls of a run stored for one user, in order.\<close>

definition stored_for :: "string \<Rightarrow> (bool \<times> string \<times> sample) list \<Rightarrow> sample list" where
  "stored_for user_id calls =
     map (\<lambda>(up, u, x). x) (filter (\<lambda>(up, u, x). up \<and> u = user_id) calls)"

text \<open>The last \<open>n\<close> elements of a list, for stating what a window holds.\<close>

definition most_recent :: "nat \<Rightarrow> 'a list \<Rightarrow> 'a list" where
  "most_recent n xs = drop (length xs - n) xs"

definition numbered_sample :: "nat \<Rightarrow> sample" where
  "numbered_sample i = \<lparr>latitude = real i, longitude = 72, timestamp = ''2024-01-01T00:00:00''\<rparr>"

subsection \<open>models.py: users and anomaly alerts\<close>

text \<open>
  The tables \<^verbatim>\<open>auth_user\<close> and \<^verbatim>\<open>AnomalyAlert\<close>. A row has an integer primary key that
  the database assigns on insertion, counting from 1; \<^verbatim>\<open>username\<close> is unique, and the
  foreign key \<^verbatim>\<open>user\<close> of an alert holds the primary key of its user (the column
  \<^verbatim>\<open>user_id\<close>). Instants are microseconds since the epoch. The database is taken to
  answer every query.
\<close>

record user =
  pk :: nat
  username :: string

record anomaly_alert =
  alert_pk :: nat
  alert_user :: nat
  alert_latitude :: real
  alert_longitude :: real
  alert_timestamp :: int
  anomaly_score :: real
  is_resolved :: bool
  resolution_notes :: "string option"

record database =
  users :: "user list"
  alerts :: "anomaly_alert list"
  next_user_pk :: nat
  next_alert_pk :: nat

definition empty_database :: database where
  "empty_database = \<lparr>users = [], alerts = [], next_user_pk = 1, next_alert_pk = 1\<rparr>"

text \<open>\<^verbatim>\<open>User.objects.get(username=name)\<close>.\<close>

definition User_get :: "database \<Rightarrow> string \<Rightarrow> error + user" where
  "User_get db name =
     (case find (\<lambda>u. username u = name) (users db) of
        None \<Rightarrow> Inl DoesNotExist
      | Some u \<Rightarrow> Inr u)"

text \<open>\<^verbatim>\<open>User.objects.get_or_create(username=name, defaults=...)\<close>.\<close>

definition User_get_or_create :: "database \<Rightarrow> string \<Rightarrow> user \<times> bool \<times> database" where
  "User_get_or_create db name =
     (case find (\<lambda>u. username u = name) (users db) of
        Some u \<Rightarrow> (u, False, db)
      | None \<Rightarrow>
          (let u = \<lparr>pk = next_user_pk db, username = name\<rparr>
           in (u, True, db\<lparr>users := users db @ [u], next_user_pk := Suc (next_user_pk db)\<rparr>)))"

text \<open>\<^verbatim>\<open>AnomalyAlert.objects.filter(user=user).delete()\<close>: the number of rows deleted.\<close>

definition delete_alerts_of_user :: "user \<Rightarrow> database \<Rightarrow> nat \<times> database" where
  "delete_alerts_of_user u db =
     (length (filter (\<lambda>a. alert_user a = pk u) (alerts db)),
      db\<lparr>alerts := filter (\<lambda>a. alert_user a \<noteq> pk u) (alerts db)\<rparr>)"

subsection \<open>utils.py: the safety score\<close>

text \<open>
  The two clock reads of the computation: \<^verbatim>\<open>timezone.now()\<close> as an instant and the
  hour of \<^verbatim>\<open>datetime.now(ist)\<close> in the zone Asia/Kolkata.
\<close>

record clock =
  utc_now :: int
  ist_hour :: nat

record safety_score =
  score :: int
  factors :: "string list"

definition timedelta_days :: "int \<Rightarrow> int" where
  "timedelta_days d = d * 86400000000"

text \<open>The decimal text of a number, as an f-string prints it.\<close>

fun str_nat :: "nat \<Rightarrow> string" where
  "str_nat n =
     (if n < 10 then [''0123456789'' ! n]
      else str_nat (n div 10) @ [''0123456789'' ! (n mod 10)])"

definition calculate_safety_score_by_user_id :: "clock \<Rightarrow> database \<Rightarrow> string \<Rightarrow> safety_score" where
  "calculate_safety_score_by_user_id clk db user_id =
     (let base_score = 100
      in case User_get db (''user_'' @ user_id) of
           Inl e \<Rightarrow> \<lparr>score = base_score, factors = [''No tracking history available'']\<rparr>
         | Inr usr \<Rightarrow>
             (let one_day_ago = utc_now clk - timedelta_days 1;
                  recent_anomalies = length (filter (\<lambda>a. alert_user a = pk usr
                                         \<and> alert_timestamp a \<ge> one_day_ago) (alerts db));
                  anomaly_penalty = int recent_anomalies * 15;
                  factors1 = (if anomaly_penalty > 0
                              then [''Detected '' @ str_nat recent_anomalies @ '' recent movement anomalies'']
                              else []);
                  night = (ist_hour clk \<ge> 22 \<or> ist_hour clk < 5);
                  time_penalty = (if night then 10 else 0);
                  factors2 = (if night then factors1 @ [''Traveling during late night hours'']
                              else factors1);
                  final_score = base_score - anomaly_penalty - time_penalty;
                  final_score = max 0 (min 100 final_score)
              in \<lparr>score = final_score, factors = factors2\<rparr>))"

subsection \<open>views.py: ending a journey, resetting, recording an alert\<close>

record response =
  status :: nat
  message :: string
  anomalies_cleared :: "nat option"

text \<open>
  \<^verbatim>\<open>serializers.CharField(max_length=50)\<close>; the identifier is the validated value.
\<close>

definition valid_user_id :: "string \<Rightarrow> bool" where
  "valid_user_id user_id \<longleftrightarrow> user_id \<noteq> [] \<and> length user_id \<le> 50"

text \<open>
  The inner \<^verbatim>\<open>try\<close> of \<^verbatim>\<open>EndJourneyView.post\<close>, written twice in the source: look the
  user up by the name \<^verbatim>\<open>user_<id>\<close>, delete its alerts, and count 0 when there is no
  such user.
\<close>

definition clear_anomaly_alerts :: "string \<Rightarrow> database \<Rightarrow> nat \<times> database" where
  "clear_anomaly_alerts user_id db =
     (case User_get db (''user_'' @ user_id) of
        Inl e \<Rightarrow> (0, db)
      | Inr usr \<Rightarrow> delete_alerts_of_user usr db)"

definition EndJourneyView_post ::
  "bool \<Rightarrow> string \<Rightarrow> redis_db \<times> database \<Rightarrow> response \<times> redis_db \<times> database" where
  "EndJourneyView_post up user_id st =
     (let (r, db) = st
      in if \<not> valid_user_id user_id
         then (\<lparr>status = 400, message = ''serializer.errors'', anomalies_cleared = None\<rparr>, r, db)
         else
           (case end_journey up user_id r of
              Inr (success, r') \<Rightarrow>
                (let (deleted_count, db') = clear_anomaly_alerts user_id db
                 in if success
                    then (\<lparr>status = 200, message = ''Journey ended successfully'',
                           anomalies_cleared = Some deleted_count\<rparr>, r', db')
                    else (\<lparr>status = 500, message = ''Failed to end journey'',
                           anomalies_cleared = None\<rparr>, r', db'))
            | Inl e \<Rightarrow>
                (let (deleted_count, db') = clear_anomaly_alerts user_id db
                 in (\<lparr>status = 200,
                       message = ''Journey end acknowledged (Redis not available - fallback mode)'',
                       anomalies_cleared = Some deleted_count\<rparr>, r, db'))))"

text \<open>
  Lines 210 to 225 of \<^verbatim>\<open>TrackLocationView.post\<close>: the user of a tracked identifier is
  the row named \<^verbatim>\<open>user_<id>\<close>, created on its first anomaly, and the alert points to it.
\<close>

definition TrackLocationView_create_alert ::
  "string \<Rightarrow> real \<Rightarrow> real \<Rightarrow> int \<Rightarrow> real \<Rightarrow> database \<Rightarrow> anomaly_alert \<times> database" where
  "TrackLocationView_create_alert user_id lat lon ts anomaly db =
     (let (usr, created, db1) = User_get_or_create db (''user_'' @ user_id);
          alert = \<lparr>alert_pk = next_alert_pk db1, alert_user = pk usr,
                   alert_latitude = lat, alert_longitude = lon, alert_timestamp = ts,
                   anomaly_score = anomaly, is_resolved = False, resolution_notes = None\<rparr>
      in (alert, db1\<lparr>alerts := alerts db1 @ [alert], next_alert_pk := Suc (next_alert_pk db1)\<rparr>))"

text \<open>
  Python's \<^verbatim>\<open>int(s)\<close> on ASCII text, which Django applies to the value of a lookup on
  an integer column: surrounding whitespace is dropped, one sign is allowed, and the
  digits may be separated by single underscores. \<open>None\<close> stands for ValueError.
\<close>

definition is_space :: "char \<Rightarrow> bool" where
  "is_space c \<longleftrightarrow> c \<in> set [CHR '' '', CHR 0x09, CHR 0x0A, CHR 0x0B, CHR 0x0C, CHR 0x0D]"

definition is_digit :: "char \<Rightarrow> bool" where
  "is_digit c \<longleftrightarrow> 48 \<le> (of_char c :: nat) \<and> (of_char c :: nat) \<le> 57"

fun digits_value :: "string \<Rightarrow> nat \<Rightarrow> bool \<Rightarrow> nat option" where
  "digits_value [] acc after_digit = (if after_digit then Some acc else None)"
| "digits_value (c # cs) acc after_digit =
     (if is_digit c then digits_value cs (acc * 10 + (of_char c - 48)) True
      else if c = CHR ''_'' \<and> after_digit then digits_value cs acc False
      else None)"

definition python_int :: "string \<Rightarrow> int option" where
  "python_int s =
     (case rev (dropWhile is_space (rev (dropWhile is_space s))) of
        [] \<Rightarrow> None
      | c # cs \<Rightarrow>
          if c = CHR ''-'' then map_option (\<lambda>n. - int n) (digits_value cs 0 False)
          else if c = CHR ''+'' then map_option int (digits_value cs 0 False)
          else map_option int (digits_value (c # cs) 0 False))"

text \<open>
  \<^verbatim>\<open>ResetAnomaliesView.post\<close>: the filter \<^verbatim>\<open>user_id=user_id\<close> compares the foreign-key
  column with the identifier read as an integer; the ValueError of an identifier that is
  no integer is not caught.
\<close>

definition ResetAnomaliesView_post :: "string \<Rightarrow> database \<Rightarrow> error + (response \<times> database)" where
  "ResetAnomaliesView_post user_id db =
     (if user_id = []
      then Inr (\<lparr>status = 400, message = ''user_id is required'', anomalies_cleared = None\<rparr>, db)
      else
        (case python_int user_id of
           None \<Rightarrow> Inl ValueError
         | Some n \<Rightarrow>
             (let count = length (filter (\<lambda>a. int (alert_user a) = n) (alerts db));
                  db' = db\<lparr>alerts := filter (\<lambda>a. int (alert_user a) \<noteq> n) (alerts db)\<rparr>
              in Inr (\<lparr>status = 200,
                        message = ''Successfully deleted '' @ str_nat count
                                  @ '' anomalies for user '' @ user_id @ ''.'',
                        anomalies_cleared = None\<rparr>, db'))))"

subsection \<open>Notions used to state the properties\<close>

text \<open>The alerts of a tracked identifier: those of the user named \<^verbatim>\<open>user_<id>\<close>.\<close>

definition subject_alerts :: "database \<Rightarrow> string \<Rightarrow> anomaly_alert list" where
  "subject_alerts db user_id =
     (case User_get db (''user_'' @ user_id) of
        Inl e \<Rightarrow> []
      | Inr usr \<Rightarrow> filter (\<lambda>a. alert_user a = pk usr) (alerts db))"

text \<open>How many of them are stamped no earlier than 24 hours before \<open>now\<close>.\<close>

definition recent_anomaly_count :: "clock \<Rightarrow> database \<Rightarrow> string \<Rightarrow> nat" where
  "recent_anomaly_count clk db user_id =
     length (filter (\<lambda>a. utc_now clk - 86400000000 \<le> alert_timestamp a) (subject_alerts db user_id))"

definition night_penalty :: "clock \<Rightarrow> int" where
  "night_penalty clk = (if 22 \<le> ist_hour clk \<or> ist_hour clk < 5 then 10 else 0)"

definition night_clock :: clock where
  "night_clock = \<lparr>utc_now = 1700000000000000, ist_hour = 23\<rparr>"

definition day_clock :: clock where
  "day_clock = \<lparr>utc_now = 1700000000000000, ist_hour = 12\<rparr>"

text \<open>
  Databases in which the identifier \<open>123\<close> has one alert and two alerts, recorded as
  the tracking view records them, starting from an empty database.
\<close>

definition db_first :: database where
  "db_first =
     snd (TrackLocationView_create_alert ''123'' 19.076 72.8777 1699999980000000 (- 0.1)
            empty_database)"

definition db_123 :: database where
  "db_123 =
     snd (TrackLocationView_create_alert ''123'' 28.6139 77.209 1699999990000000 (- 0.2) db_first)"

text \<open>A clock read before the alerts of \<open>db_123\<close> are stamped.\<close>

definition early_clock :: clock where
  "early_clock = \<lparr>utc_now = 1600000000000000, ist_hour = 12\<rparr>"

section \<open>Properties\<close>

text \<open>
  C9. For bearings \<open>x\<close>, \<open>y\<close> in \<open>[0, 360)\<close> the bearing difference lies in \<open>[0, 180]\<close>,
  it is the shorter of the two arcs between them (so it wraps across the 0/360
  boundary), and the difference of 350 and 10 is 20.
\<close>

theorem bearing_difference_range:
  assumes "0 \<le> x" "x < 360" "0 \<le> y" "y < 360"
  shows "0 \<le> bearing_difference x y \<and> bearing_difference x y \<le> 180
       \<and> bearing_difference x y = min \<bar>y - x\<bar> (360 - \<bar>y - x\<bar>)
       \<and> bearing_difference 350 10 = 20"
  using assms by (auto simp: bearing_difference_def Let_def min_def)

theorem bearing_difference_range_witness:
  "bearing_difference 350 10 = 20 \<and> bearing_difference 10 350 = 20
   \<and> 0 \<le> bearing_difference 350 10 \<and> bearing_difference 350 10 \<le> 180"
  using bearing_difference_range [of 350 10] bearing_difference_range [of 10 350]
  by simp

text \<open>
  C10. Called with absent features (\<^verbatim>\<open>None\<close>), the fallback scorer returns
  \<open>(False, 0.0)\<close>: it does not raise and reports no anomaly.
\<close>

theorem is_anomalous_behavior_None:
  "is_anomalous_behavior None = Inr (False, 0)"
  by (simp add: is_anomalous_behavior_def)

subsection \<open>The fallback scorer\<close>




subsection \<open>Feature extraction\<close>










lemma point_to_point_length:
  "point_to_point f xs = Inr sbs \<Longrightarrow> length sbs \<le> length xs - 1"
proof (induction xs arbitrary: sbs)
  case Nil
  then show ?case by simp
next
  case (Cons p xs)
  show ?case
  proof (cases xs)
    case Nil
    with Cons.prems show ?thesis by simp
  next
    case (Cons q rest)
    with Cons.prems obtain r tl_sbs where
      tl: "point_to_point f xs = Inr tl_sbs" and
      sbs: "sbs = (case r of None \<Rightarrow> tl_sbs | Some sb \<Rightarrow> sb # tl_sbs)"
      by (auto split: sum.splits)
    from Cons.IH [OF tl] have "length tl_sbs \<le> length xs - 1" .
    with sbs Cons show ?thesis by (cases r) simp_all
  qed
qed

lemma accelerations_of_length: "length (accelerations_of speeds) = length speeds - 1"
  by (induction speeds rule: accelerations_of.induct) simp_all

lemma accelerations_of_nth:
  "Suc i < length speeds \<Longrightarrow> accelerations_of speeds ! i = (speeds ! Suc i - speeds ! i) / 10"
proof (induction speeds arbitrary: i rule: accelerations_of.induct)
  case (1 s1 s2 rest)
  then show ?case by (cases i) simp_all
qed simp_all

lemma sorted_abc: "sort_key timestamp [point_a, point_b, point_c] = [point_a, point_b, point_c]"
  by (simp add: point_a_def point_b_def point_c_def)


lemma pair_ab: "pair_sample iso_table point_a point_b
   = Inr (Some (haversine_distance 19 72 19.0001 72 / 10, calculate_bearing 19 72 19.0001 72))"
  by (simp add: pair_sample_def iso_table_def point_a_def point_b_def total_seconds_def Let_def)

lemma pair_bc: "pair_sample iso_table point_b point_c
   = Inr (Some (haversine_distance 19.0001 72 19.0001 72.0001 / 30,
                calculate_bearing 19.0001 72 19.0001 72.0001))"
  by (simp add: pair_sample_def iso_table_def point_b_def point_c_def total_seconds_def Let_def)


lemma speeds_abc: "point_to_point iso_table (sort_key timestamp [point_a, point_b, point_c])
   = Inr [(haversine_distance 19 72 19.0001 72 / 10, calculate_bearing 19 72 19.0001 72),
          (haversine_distance 19.0001 72 19.0001 72.0001 / 30,
           calculate_bearing 19.0001 72 19.0001 72.0001)]"
  unfolding sorted_abc by (simp add: pair_ab pair_bc)




text \<open>
  C5. When the window yields at least two speed samples, \<^verbatim>\<open>extract_features\<close> returns the
  feature row built on the acceleration series of those speeds, and the element for
  the \<open>i\<close>-th speed is \<open>(speed[i] - speed[i-1]) / 10\<close>: the divisor is the constant 10,
  whatever the time between the samples.
\<close>

theorem accelerations_fixed_interval:
  assumes "point_to_point f (sort_key timestamp w) = Inr sbs" and "2 \<le> length sbs"
  shows "extract_features f w
           = Inr (Some (feature_row (length w) (map fst sbs)
                          (bearing_changes_of (map snd sbs)) (accelerations_of (map fst sbs))))
       \<and> length (accelerations_of (map fst sbs)) = length sbs - 1
       \<and> (\<forall>i. 1 \<le> i \<and> i < length sbs \<longrightarrow>
             accelerations_of (map fst sbs) ! (i - 1) = (fst (sbs ! i) - fst (sbs ! (i - 1))) / 10)"
proof -
  from point_to_point_length [OF assms(1)] assms(2) have len: "2 \<le> length w" by simp
  have sbs: "sbs \<noteq> []" using assms(2) by auto
  have a: "extract_features f w
           = Inr (Some (feature_row (length w) (map fst sbs)
                          (bearing_changes_of (map snd sbs)) (accelerations_of (map fst sbs))))"
    using len sbs assms(1) by (simp add: extract_features_def Let_def)
  have b: "length (accelerations_of (map fst sbs)) = length sbs - 1"
    by (simp add: accelerations_of_length)
  have c: "accelerations_of (map fst sbs) ! (i - 1) = (fst (sbs ! i) - fst (sbs ! (i - 1))) / 10"
    if "1 \<le> i" "i < length sbs" for i
  proof -
    from that have "Suc (i - 1) < length (map fst sbs)" by simp
    from accelerations_of_nth [OF this] that show ?thesis by simp
  qed
  from a b c show ?thesis by blast
qed

text \<open>
  The pairs of the window below are 10 and 30 seconds apart; the acceleration divides
  by 10 all the same.
\<close>

theorem accelerations_fixed_interval_witness:
  "accelerations_of [haversine_distance 19 72 19.0001 72 / 10,
                     haversine_distance 19.0001 72 19.0001 72.0001 / 30]
     = [(haversine_distance 19.0001 72 19.0001 72.0001 / 30
          - haversine_distance 19 72 19.0001 72 / 10) / 10]
   \<and> extract_features iso_table [point_a, point_b, point_c]
     = Inr (Some (feature_row 3
         [haversine_distance 19 72 19.0001 72 / 10, haversine_distance 19.0001 72 19.0001 72.0001 / 30]
         [bearing_difference (calculate_bearing 19 72 19.0001 72)
            (calculate_bearing 19.0001 72 19.0001 72.0001)]
         [(haversine_distance 19.0001 72 19.0001 72.0001 / 30
            - haversine_distance 19 72 19.0001 72 / 10) / 10]))"
  using accelerations_fixed_interval [OF speeds_abc]
  by (simp add: numeral_3_eq_3)

subsection \<open>The sliding window\<close>

lemma redis_range_all: "redis_range xs 0 (- 1) = xs"
  by (cases xs) (simp_all add: redis_range_def Let_def)

lemma redis_range_last30: "redis_range xs (- 30) (- 1) = drop (length xs - 30) xs"
  by (cases xs) (auto simp: redis_range_def Let_def nat_diff_distrib')

lemma most_recent_append: "most_recent n (most_recent n a @ b) = most_recent n (a @ b)"
  by (cases "length a \<le> n") (auto simp: most_recent_def add.commute)

lemma length_most_recent: "length (most_recent n xs) \<le> n"
  by (simp add: most_recent_def)

lemma add_location_point_most_recent:
  "add_location_point True u x r = Inr (w, r') \<Longrightarrow>
     w = location r' u \<and> w = most_recent 30 (location r u @ [x])
     \<and> (\<forall>v. v \<noteq> u \<longrightarrow> location r' v = location r v)"
  by (auto simp: add_location_point_def Let_def rpush_def ltrim_def lrange_def
      redis_range_all redis_range_last30 most_recent_def)

lemma add_location_point_down: "add_location_point False u x r = Inl ConnectionError"
  by (simp add: add_location_point_def)

lemma add_location_point_up: "\<exists>w r'. add_location_point True u x r = Inr (w, r')"
  by (simp add: add_location_point_def Let_def)

lemma add_location_points_window:
  "location (add_location_points calls r) u
     = most_recent 30 (most_recent 30 (location r u) @ stored_for u calls)" if "length (location r u) \<le> 30"
  using that
proof (induction calls arbitrary: r)
  case Nil
  then show ?case by (simp add: stored_for_def most_recent_def)
next
  case (Cons c calls)
  obtain up v x where c: "c = (up, v, x)" by (cases c)
  show ?case
  proof (cases up)
    case False
    with c Cons show ?thesis
      by (simp add: add_location_point_down stored_for_def)
  next
    case True
    obtain w r' where step: "add_location_point True v x r = Inr (w, r')"
      using add_location_point_up by blast
    note facts = add_location_point_most_recent [OF step]
    have len: "length (location r' u) \<le> 30"
    proof (cases "v = u")
      case True
      with facts have "location r' u = most_recent 30 (location r u @ [x])" by auto
      then show ?thesis by (simp add: length_most_recent)
    next
      case False
      with facts Cons.prems show ?thesis by auto
    qed
    have run: "add_location_points (c # calls) r = add_location_points calls r'"
      using c True step by simp
    show ?thesis
    proof (cases "v = u")
      case same: True
      with facts have loc: "location r' u = most_recent 30 (location r u @ [x])" by auto
      have st: "stored_for u (c # calls) = x # stored_for u calls"
        using c True same by (simp add: stored_for_def)
      have keep: "most_recent 30 (location r u) = location r u"
        "most_recent 30 (location r' u) = location r' u"
        using Cons.prems len by (simp_all add: most_recent_def)
      have "location (add_location_points calls r') u
              = most_recent 30 (most_recent 30 (location r u @ [x]) @ stored_for u calls)"
        using Cons.IH [OF len] keep loc by simp
      also have "\<dots> = most_recent 30 ((location r u @ [x]) @ stored_for u calls)"
        by (rule most_recent_append)
      finally show ?thesis using run st keep by simp
    next
      case other: False
      with facts have loc: "location r' u = location r u" by auto
      have st: "stored_for u (c # calls) = stored_for u calls"
        using c other by (simp add: stored_for_def)
      from Cons.IH [OF len] loc run st show ?thesis by simp
    qed
  qed
qed

lemma stored_for_numbered:
  "stored_for u (map (\<lambda>i. (True, u, numbered_sample i)) is) = map numbered_sample is"
  by (induction "is") (simp_all add: stored_for_def)

text \<open>
  C2. Starting from an empty store, after any run of calls to \<^verbatim>\<open>add_location_point\<close>
  (for any users, some of them failing) the window of a user holds at most 30 entries:
  the last 30 samples stored for that user, in insertion order. After 35 stored samples
  these are the samples without the first 5. A call that returns gives back the window
  the store holds after it, whatever the store held before.
\<close>

theorem window_never_exceeds_30:
  "length (location (add_location_points calls redis_empty) u) \<le> 30
 \<and> location (add_location_points calls redis_empty) u = most_recent 30 (stored_for u calls)
 \<and> (length (stored_for u calls) = 35
      \<longrightarrow> location (add_location_points calls redis_empty) u = drop 5 (stored_for u calls))
 \<and> (add_location_point True u x r = Inr (w, r')
      \<longrightarrow> w = location r' u \<and> length w \<le> 30 \<and> w = most_recent 30 (location r u @ [x]))"
proof -
  have start: "length (location redis_empty u) \<le> 30"
    by (simp add: redis_empty_def)
  have eq: "location (add_location_points calls redis_empty) u = most_recent 30 (stored_for u calls)"
    using add_location_points_window [OF start] by (simp add: redis_empty_def most_recent_def)
  have bound: "length (location (add_location_points calls redis_empty) u) \<le> 30"
    unfolding eq by (rule length_most_recent)
  have last: "location (add_location_points calls redis_empty) u = drop 5 (stored_for u calls)"
    if "length (stored_for u calls) = 35"
    unfolding eq using that by (simp add: most_recent_def)
  have one: "w = location r' u \<and> length w \<le> 30 \<and> w = most_recent 30 (location r u @ [x])"
    if "add_location_point True u x r = Inr (w, r')"
    using add_location_point_most_recent [OF that] length_most_recent [of 30 "location r u @ [x]"]
    by auto
  from eq bound last one show ?thesis by blast
qed

theorem window_never_exceeds_30_witness:
  "location (add_location_points (map (\<lambda>i. (True, ''7'', numbered_sample i)) [0..<35]) redis_empty) ''7''
     = map numbered_sample [5..<35]
 \<and> length (location (add_location_points (map (\<lambda>i. (True, ''7'', numbered_sample i)) [0..<35])
             redis_empty) ''7'') = 30
 \<and> add_location_point True ''7'' point_a redis_empty
     = Inr ([point_a], redis_empty\<lparr>location := (location redis_empty)(''7'' := [point_a])\<rparr>)"
proof -
  let ?calls = "map (\<lambda>i. (True, ''7'', numbered_sample i)) [0..<35]"
  have st: "stored_for ''7'' ?calls = map numbered_sample [0..<35]"
    by (rule stored_for_numbered)
  have len: "length (stored_for ''7'' ?calls) = 35"
    unfolding st by simp
  from window_never_exceeds_30 [of ?calls "''7''"] len
  have "location (add_location_points ?calls redis_empty) ''7'' = drop 5 (stored_for ''7'' ?calls)"
    by blast
  then have a: "location (add_location_points ?calls redis_empty) ''7'' = map numbered_sample [5..<35]"
    unfolding st by (simp add: drop_map)
  have b: "add_location_point True ''7'' point_a redis_empty
     = Inr ([point_a], redis_empty\<lparr>location := (location redis_empty)(''7'' := [point_a])\<rparr>)"
    by (simp add: add_location_point_def Let_def rpush_def ltrim_def lrange_def redis_range_all
        redis_range_last30 redis_empty_def)
  from a b show ?thesis by simp
qed

subsection \<open>Safety score, journey end and reset\<close>

lemma db_first_rows:
  "db_first = \<lparr>users = [\<lparr>pk = 1, username = ''user_123''\<rparr>],
      alerts = [\<lparr>alert_pk = 1, alert_user = 1, alert_latitude = 19.076, alert_longitude = 72.8777,
                 alert_timestamp = 1699999980000000, anomaly_score = - 0.1, is_resolved = False,
                 resolution_notes = None\<rparr>],
      next_user_pk = 2, next_alert_pk = 2\<rparr>"
  by (simp add: db_first_def TrackLocationView_create_alert_def User_get_or_create_def
      empty_database_def Let_def)

lemma db_123_rows:
  "db_123 = \<lparr>users = [\<lparr>pk = 1, username = ''user_123''\<rparr>],
      alerts = [\<lparr>alert_pk = 1, alert_user = 1, alert_latitude = 19.076, alert_longitude = 72.8777,
                 alert_timestamp = 1699999980000000, anomaly_score = - 0.1, is_resolved = False,
                 resolution_notes = None\<rparr>,
                \<lparr>alert_pk = 2, alert_user = 1, alert_latitude = 28.6139, alert_longitude = 77.209,
                 alert_timestamp = 1699999990000000, anomaly_score = - 0.2, is_resolved = False,
                 resolution_notes = None\<rparr>],
      next_user_pk = 2, next_alert_pk = 3\<rparr>"
  by (simp add: db_123_def db_first_rows TrackLocationView_create_alert_def User_get_or_create_def
      Let_def)

lemma recent_count_filter:
  "User_get db (''user_'' @ user_id) = Inr usr \<Longrightarrow>
   length (filter (\<lambda>a. alert_user a = pk usr \<and> utc_now clk - timedelta_days 1 \<le> alert_timestamp a)
             (alerts db))
     = recent_anomaly_count clk db user_id"
  by (simp add: recent_anomaly_count_def subject_alerts_def timedelta_days_def conj_commute)

lemma score_known:
  "User_get db (''user_'' @ user_id) = Inr usr \<Longrightarrow>
   score (calculate_safety_score_by_user_id clk db user_id)
     = max 0 (min 100 (100 - 15 * int (recent_anomaly_count clk db user_id) - night_penalty clk))"
  using recent_count_filter [of db user_id usr clk]
  by (simp add: calculate_safety_score_by_user_id_def Let_def night_penalty_def)

lemma score_unknown:
  "User_get db (''user_'' @ user_id) = Inl e \<Longrightarrow>
   calculate_safety_score_by_user_id clk db user_id
     = \<lparr>score = 100, factors = [''No tracking history available'']\<rparr>"
  by (simp add: calculate_safety_score_by_user_id_def)




lemma user_123: "User_get db_123 ''user_123'' = Inr \<lparr>pk = 1, username = ''user_123''\<rparr>"
  by (simp add: db_123_rows User_get_def)




lemma nobody_42: "User_get empty_database ''user_42'' = Inl DoesNotExist"
  by (simp add: User_get_def empty_database_def)


text \<open>
  C8 (as amended). For a subject without a user row (never recorded by the tracking
  view) the computation returns the score 100 and the single factor
  \<^verbatim>\<open>No tracking history available\<close>, and raises nothing.
\<close>

theorem unknown_subject_baseline:
  "User_get db (''user_'' @ user_id) = Inl DoesNotExist \<Longrightarrow>
   calculate_safety_score_by_user_id clk db user_id
     = \<lparr>score = 100, factors = [''No tracking history available'']\<rparr>"
  by (rule score_unknown)

theorem unknown_subject_baseline_witness:
  "calculate_safety_score_by_user_id day_clock empty_database ''42''
     = \<lparr>score = 100, factors = [''No tracking history available'']\<rparr>"
  using unknown_subject_baseline [of empty_database "''42''" day_clock] nobody_42
  by simp

text \<open>
  C8 as stated fails on the text of the factor: the source writes it with a capital N.
\<close>

theorem unknown_subject_factor_counterexample:
  "calculate_safety_score_by_user_id day_clock empty_database ''42''
     \<noteq> \<lparr>score = 100, factors = [''no tracking history available'']\<rparr>"
  using nobody_42 by (simp add: score_unknown)


text \<open>
  A record stamped later than \<open>now\<close> is counted as well: the filter has a lower bound
  only.
\<close>

lemma future_alerts_are_counted:
  "recent_anomaly_count early_clock db_123 ''123'' = 2
   \<and> score (calculate_safety_score_by_user_id early_clock db_123 ''123'') = 70"
proof -
  have n: "recent_anomaly_count early_clock db_123 ''123'' = 2"
    by (simp add: recent_anomaly_count_def subject_alerts_def user_123 early_clock_def)
       (simp add: db_123_rows)
  have "night_penalty early_clock = 0"
    by (simp add: night_penalty_def early_clock_def)
  with n score_known [of db_123 "''123''" _ early_clock] user_123 show ?thesis by simp
qed

lemma clear_anomaly_alerts_facts:
  assumes "clear_anomaly_alerts user_id db = (deleted_count, db')"
  shows "deleted_count = length (subject_alerts db user_id)"
    and "alerts db' = filter (\<lambda>a. a \<notin> set (subject_alerts db user_id)) (alerts db)"
    and "users db' = users db"
    and "subject_alerts db' user_id = []"
proof -
  show "deleted_count = length (subject_alerts db user_id)"
    using assms
    by (auto simp: clear_anomaly_alerts_def subject_alerts_def delete_alerts_of_user_def
        split: sum.splits)
  show al: "alerts db' = filter (\<lambda>a. a \<notin> set (subject_alerts db user_id)) (alerts db)"
    using assms
    by (auto simp: clear_anomaly_alerts_def subject_alerts_def delete_alerts_of_user_def
        split: sum.splits intro: filter_cong)
  show us: "users db' = users db"
    using assms
    by (auto simp: clear_anomaly_alerts_def delete_alerts_of_user_def split: sum.splits)
  have same: "User_get db' name = User_get db name" for name
    using us by (simp add: User_get_def)
  show "subject_alerts db' user_id = []"
    unfolding subject_alerts_def same al
    by (auto simp: subject_alerts_def split: sum.splits)
qed

lemma score_without_alerts:
  assumes "subject_alerts db user_id = []"
  shows "score (calculate_safety_score_by_user_id clk db user_id)
           = (case User_get db (''user_'' @ user_id) of
                Inl e \<Rightarrow> 100 | Inr usr \<Rightarrow> 100 - night_penalty clk)"
proof (cases "User_get db (''user_'' @ user_id)")
  case (Inl e)
  then show ?thesis by (simp add: score_unknown)
next
  case (Inr usr)
  have "recent_anomaly_count clk db user_id = 0"
    using assms by (simp add: recent_anomaly_count_def)
  with Inr score_known [OF Inr, of clk] show ?thesis
    by (simp add: night_penalty_def)
qed

text \<open>
  C6 (as amended). For a valid identifier, ending the journey deletes every anomaly
  record of the subject, keeps the others, and reports the number deleted with status
  200; this holds when Redis answers and when it raises (the session store is then left
  untouched). Afterwards the anomaly penalty of the subject is zero: its score is 100
  when it has no user row, and otherwise 100 minus the night penalty, that is 100
  between 5 and 22 hours and 90 at night.
\<close>

theorem end_journey_clears_alerts:
  assumes "valid_user_id user_id"
    and "EndJourneyView_post up user_id (r, db) = (resp, r', db')"
  shows "subject_alerts db' user_id = []
   \<and> status resp = 200
   \<and> anomalies_cleared resp = Some (length (subject_alerts db user_id))
   \<and> alerts db' = filter (\<lambda>a. a \<notin> set (subject_alerts db user_id)) (alerts db)
   \<and> (\<not> up \<longrightarrow> end_journey up user_id r = Inl ConnectionError \<and> r' = r)
   \<and> (up \<longrightarrow> journey r' user_id = None \<and> location r' user_id = [])
   \<and> score (calculate_safety_score_by_user_id clk db' user_id)
       = (case User_get db (''user_'' @ user_id) of
            Inl e \<Rightarrow> 100 | Inr usr \<Rightarrow> 100 - night_penalty clk)
   \<and> (5 \<le> ist_hour clk \<and> ist_hour clk < 22
        \<longrightarrow> score (calculate_safety_score_by_user_id clk db' user_id) = 100)"
proof -
  obtain n dbc where cl: "clear_anomaly_alerts user_id db = (n, dbc)"
    by (cases "clear_anomaly_alerts user_id db")
  note facts = clear_anomaly_alerts_facts [OF cl]
  have res: "db' = dbc \<and> status resp = 200 \<and> anomalies_cleared resp = Some n
      \<and> (\<not> up \<longrightarrow> end_journey up user_id r = Inl ConnectionError \<and> r' = r)
      \<and> (up \<longrightarrow> journey r' user_id = None \<and> location r' user_id = [])"
    using assms cl by (cases up) (auto simp: EndJourneyView_post_def end_journey_def)
  have same: "User_get db' name = User_get db name" for name
    using res facts(3) by (simp add: User_get_def)
  have sc: "score (calculate_safety_score_by_user_id clk db' user_id)
       = (case User_get db (''user_'' @ user_id) of
            Inl e \<Rightarrow> 100 | Inr usr \<Rightarrow> 100 - night_penalty clk)"
    using score_without_alerts [of db' user_id clk] res facts(4) same by simp
  have day: "score (calculate_safety_score_by_user_id clk db' user_id) = 100"
    if "5 \<le> ist_hour clk \<and> ist_hour clk < 22"
    using that sc by (simp add: night_penalty_def split: sum.splits)
  from res facts sc day show ?thesis by simp
qed

lemma end_journey_db_123:
  "EndJourneyView_post False ''123'' (redis_empty, db_123)
     = (\<lparr>status = 200,
          message = ''Journey end acknowledged (Redis not available - fallback mode)'',
          anomalies_cleared = Some 2\<rparr>,
        redis_empty, db_123\<lparr>alerts := []\<rparr>)"
  by (simp add: EndJourneyView_post_def valid_user_id_def end_journey_def clear_anomaly_alerts_def
      user_123 delete_alerts_of_user_def)
     (simp add: db_123_rows)

theorem end_journey_clears_alerts_witness:
  "anomalies_cleared (fst (EndJourneyView_post False ''123'' (redis_empty, db_123))) = Some 2
 \<and> subject_alerts (snd (snd (EndJourneyView_post False ''123'' (redis_empty, db_123)))) ''123'' = []
 \<and> score (calculate_safety_score_by_user_id day_clock
            (snd (snd (EndJourneyView_post False ''123'' (redis_empty, db_123)))) ''123'') = 100"
proof -
  have v: "valid_user_id ''123''"
    by (simp add: valid_user_id_def)
  have n: "length (subject_alerts db_123 ''123'') = 2"
    by (simp add: subject_alerts_def user_123) (simp add: db_123_rows)
  have d: "5 \<le> ist_hour day_clock \<and> ist_hour day_clock < 22"
    by (simp add: day_clock_def)
  from end_journey_clears_alerts [OF v end_journey_db_123, of day_clock] n d
  show ?thesis by (simp add: end_journey_db_123)
qed

text \<open>
  C6 as stated fails at night: after the journey of \<open>123\<close> is ended at hour 23, the
  score is 90, with the night factor.
\<close>

theorem end_journey_night_counterexample:
  "score (calculate_safety_score_by_user_id night_clock
            (snd (snd (EndJourneyView_post True ''123'' (redis_empty, db_123)))) ''123'') = 90
 \<and> factors (calculate_safety_score_by_user_id night_clock
            (snd (snd (EndJourneyView_post True ''123'' (redis_empty, db_123)))) ''123'')
     = [''Traveling during late night hours'']"
proof -
  have "snd (snd (EndJourneyView_post True ''123'' (redis_empty, db_123))) = db_123\<lparr>alerts := []\<rparr>"
    by (simp add: EndJourneyView_post_def valid_user_id_def end_journey_def clear_anomaly_alerts_def
      user_123 delete_alerts_of_user_def)
       (simp add: db_123_rows)
  moreover have "User_get (db_123\<lparr>alerts := []\<rparr>) ''user_123'' = Inr \<lparr>pk = 1, username = ''user_123''\<rparr>"
    by (simp add: db_123_rows User_get_def)
  ultimately show ?thesis
    by (simp add: calculate_safety_score_by_user_id_def Let_def night_clock_def)
qed

text \<open>
  C7. The reset view does not delete the records of the subject. The identifier \<open>123\<close>
  has two records, held by the user row with primary key 1; the view compares the
  foreign key with the integer 123, deletes nothing and reports 0. With an identifier
  that is no integer, such as \<^verbatim>\<open>test_anomaly_user\<close>, it raises ValueError.
\<close>

theorem reset_anomalies_wrong_key:
  "length (subject_alerts db_123 ''123'') = 2
 \<and> ResetAnomaliesView_post ''123'' db_123
     = Inr (\<lparr>status = 200, message = ''Successfully deleted 0 anomalies for user 123.'',
              anomalies_cleared = None\<rparr>, db_123)
 \<and> ResetAnomaliesView_post ''test_anomaly_user'' db_123 = Inl ValueError"
proof -
  have a: "length (subject_alerts db_123 ''123'') = 2"
    by (simp add: subject_alerts_def user_123) (simp add: db_123_rows)
  have i: "python_int ''123'' = Some 123"
    by (simp add: python_int_def is_space_def is_digit_def)
  have j: "python_int ''test_anomaly_user'' = None"
    by (simp add: python_int_def is_space_def is_digit_def)
  have b: "ResetAnomaliesView_post ''123'' db_123
     = Inr (\<lparr>status = 200, message = ''Successfully deleted 0 anomalies for user 123.'',
              anomalies_cleared = None\<rparr>, db_123)"
    by (simp add: ResetAnomaliesView_post_def i db_123_rows Let_def)
  have c: "ResetAnomaliesView_post ''test_anomaly_user'' db_123 = Inl ValueError"
    by (simp add: ResetAnomaliesView_post_def j)
  from a b c show ?thesis by simp
qed

end
